theory Spec2Isabelle
  imports Complex_Main
begin

section \<open>Shape import of the Mitsuba add-on for Blender: \<open>io/importer/shapes.py\<close>\<close>

text \<open>
  The module turns one Mitsuba shape record into a Blender mesh and a world matrix.
  Every converter is embedded as a function from the collaborators it calls and the
  shape record to a pair: what the Python call produces (an exception, \<open>None\<close>, or
  the tuple \<open>(bl_mesh, world_matrix)\<close>) and the externally visible events it caused, in
  order.
\<close>

subsection \<open>Python values, exceptions, shape records\<close>

type_synonym pyfloat = real

text \<open>Property values of a shape: the heterogeneous store behind \<open>mi_shape.get\<close>.\<close>

datatype pval =
    PBool bool
  | PInt int
  | PFloat pyfloat
  | PStr string
  | PList "pyfloat list"
  | PTransform "pyfloat list list"

text \<open>
  Truth value testing, as \<open>if flat_shading:\<close> and \<open>if flip_normals:\<close> perform it:
  numbers are false when zero, sequences when empty, any other object is true.
\<close>

fun truthy :: "pval \<Rightarrow> bool" where
  "truthy (PBool b) = b"
| "truthy (PInt i) = (i \<noteq> 0)"
| "truthy (PFloat x) = (x \<noteq> 0)"
| "truthy (PStr s) = (s \<noteq> [])"
| "truthy (PList xs) = (xs \<noteq> [])"
| "truthy (PTransform m) = True"

datatype py_error = AssertionError | TypeError | IndexError | ValueError | RuntimeError

record shape =
  plugin_name :: string
  shape_id :: string
  props :: "string \<Rightarrow> pval option"

definition has_property :: "shape \<Rightarrow> string \<Rightarrow> bool" where
  "has_property mi_shape key = (props mi_shape key \<noteq> None)"

text \<open>\<open>mi_shape.get(key, default)\<close>.\<close>

definition shape_get :: "shape \<Rightarrow> string \<Rightarrow> pval \<Rightarrow> pval" where
  "shape_get mi_shape key dflt = (case props mi_shape key of None \<Rightarrow> dflt | Some v \<Rightarrow> v)"

subsection \<open>Blender meshes\<close>

type_synonym vertex = "pyfloat \<times> pyfloat \<times> pyfloat"

text \<open>
  A polygon is its loop of vertex indices, in winding order, and its \<open>use_smooth\<close>
  flag. A mesh carries its name, its vertices and polygons, whether it has a UV layer,
  and the requests to recompute derived data (\<open>calc_normals()\<close>, \<open>update()\<close>) made on it,
  in order.
\<close>

record polygon =
  loop :: "nat list"
  use_smooth :: bool

datatype mesh_call = CalcNormals | Update

record mesh =
  name :: string
  vertices :: "vertex list"
  polygons :: "polygon list"
  uv_layer :: bool
  calls :: "mesh_call list"

text \<open>What a \<open>bmesh\<close> operator leaves in the scratch \<open>bmesh\<close>.\<close>

record geometry =
  gverts :: "vertex list"
  gfaces :: "nat list list"
  guv :: bool

text \<open>\<open>bl_bmesh.to_mesh(bl_mesh)\<close>.\<close>

definition to_mesh :: "geometry \<Rightarrow> mesh \<Rightarrow> mesh" where
  "to_mesh g bl_mesh =
     bl_mesh\<lparr>vertices := gverts g,
             polygons := map (\<lambda>f. \<lparr>loop = f, use_smooth = False\<rparr>) (gfaces g),
             uv_layer := guv g\<rparr>"

text \<open>\<open>bl_mesh.polygons.foreach_set('use_smooth', [b] * len(bl_mesh.polygons))\<close>.\<close>

definition foreach_set_use_smooth :: "bool \<Rightarrow> mesh \<Rightarrow> mesh" where
  "foreach_set_use_smooth b bl_mesh =
     bl_mesh\<lparr>polygons := map (\<lambda>p. p\<lparr>use_smooth := b\<rparr>) (polygons bl_mesh)\<rparr>"

definition calc_normals :: "mesh \<Rightarrow> mesh" where
  "calc_normals bl_mesh = bl_mesh\<lparr>calls := calls bl_mesh @ [CalcNormals]\<rparr>"

definition update :: "mesh \<Rightarrow> mesh" where
  "update bl_mesh = bl_mesh\<lparr>calls := calls bl_mesh @ [Update]\<rparr>"

text \<open>
  Modelled from the spec: \<open>Mesh.flip_normals()\<close> is Blender's method, absent from the
  sources. Section 4.5 of the spec has it invert every face's winding: the loop of every
  polygon is traversed in the opposite direction, from the same start vertex.
\<close>

fun flip_loop :: "nat list \<Rightarrow> nat list" where
  "flip_loop [] = []"
| "flip_loop (v # vs) = v # rev vs"

definition flip_normals :: "mesh \<Rightarrow> mesh" where
  "flip_normals bl_mesh =
     bl_mesh\<lparr>polygons := map (\<lambda>p. p\<lparr>loop := flip_loop (loop p)\<rparr>) (polygons bl_mesh)\<rparr>"

text \<open>
  Modelled from the spec: \<open>bmesh.ops.create_cube\<close> is Blender's operator, absent from the
  sources. Sections 4.3 and 8 of the spec describe its result: a cube of the given edge
  length centred at the origin, eight vertices, six quadrilateral faces.
\<close>

definition create_cube :: "pyfloat \<Rightarrow> bool \<Rightarrow> geometry" where
  "create_cube edge calc_uvs =
     (let h = edge / 2 in
      \<lparr>gverts = [(- h, - h, - h), (- h, - h, h), (- h, h, - h), (- h, h, h),
                 (h, - h, - h), (h, - h, h), (h, h, - h), (h, h, h)],
       gfaces = [[0, 1, 3, 2], [2, 3, 7, 6], [6, 7, 5, 4],
                 [4, 5, 1, 0], [2, 6, 4, 0], [7, 3, 1, 5]],
       guv = calc_uvs\<rparr>)"

subsection \<open>Utilities\<close>

text \<open>
  \<open>_set_bl_mesh_shading(bl_mesh, flat_shading=True, flip_normals=False)\<close>. The two flags
  arrive as Python values and are tested for truth.
\<close>

definition set_bl_mesh_shading :: "mesh \<Rightarrow> pval \<Rightarrow> pval \<Rightarrow> mesh" where
  "set_bl_mesh_shading bl_mesh flat_shading flip =
     (let m1 = (if truthy flat_shading
                then foreach_set_use_smooth False bl_mesh
                else foreach_set_use_smooth True (calc_normals bl_mesh));
          m2 = (if truthy flip then flip_normals m1 else m1)
      in update m2)"

subsection \<open>Collaborators and events\<close>

text \<open>
  Events a conversion causes outside the returned value: a message handed to
  \<open>mi_context.log\<close> (text, then level), a path resolution, a call of a file loader or of
  the embedded renderer (type, file name, shape index), the registration of a new mesh
  with \<open>bpy.data.meshes\<close>.
\<close>

datatype event =
    Log string string
  | ResolvePath pval
  | LoadPly string string
  | LoadObj string
  | LoadDict string string "pval option"
  | NewMesh string

text \<open>What \<open>traverse(mi.load_dict(...))\<close> exposes of a serialized shape.\<close>

record serialized_params =
  vertex_count :: nat
  face_count :: nat
  vertex_positions :: "pyfloat list"
  faces :: "nat list"

text \<open>
  The code this module calls and does not define, as parameters: the methods of
  \<open>mi_context\<close>, \<open>mathutils\<close>, the two file loaders, the \<open>bmesh\<close> operators for curved and
  flat primitives, the embedded renderer, the clock, and string formatting. The type
  \<open>'m\<close> is that of \<open>mathutils\<close> matrices and vectors. \<open>time_time k\<close> is what the
  \<open>k\<close>-th call of \<open>time.time()\<close> in a conversion returns; \<open>format_value v\<close> is the text
  of \<open>{v}\<close>. \<open>assigned_name n\<close> is the name Blender's mesh registry gives a mesh that
  this conversion asks to be called \<open>n\<close>: names in \<open>bpy.data.meshes\<close> are unique,
  non-empty and of bounded length, so it is \<open>n\<close> itself only when \<open>n\<close> qualifies and
  no other mesh holds it.
\<close>

record 'm env =
  resolve_scene_relative_path :: "pval \<Rightarrow> string"
  mi_space_to_bl_space :: "'m \<Rightarrow> 'm"
  matrix_identity :: "'m"
  matrix_of_transform :: "pval \<Rightarrow> 'm"
  Matrix_Translation :: "'m \<Rightarrow> 'm"
  Vector :: "pval \<Rightarrow> 'm"
  load_ply_mesh :: "string \<Rightarrow> string \<Rightarrow> mesh option"
  import_obj_load :: "string \<Rightarrow> mesh list"
  create_uvsphere :: "nat \<Rightarrow> nat \<Rightarrow> pval \<Rightarrow> bool \<Rightarrow> geometry"
  create_circle :: "bool \<Rightarrow> bool \<Rightarrow> nat \<Rightarrow> pyfloat \<Rightarrow> bool \<Rightarrow> geometry"
  create_grid :: "nat \<Rightarrow> nat \<Rightarrow> pyfloat \<Rightarrow> bool \<Rightarrow> geometry"
  load_dict_traverse :: "string \<Rightarrow> string \<Rightarrow> pval option \<Rightarrow> py_error + serialized_params"
  time_time :: "nat \<Rightarrow> pyfloat"
  format_value :: "pval \<Rightarrow> string"
  assigned_name :: "string \<Rightarrow> string"

text \<open>\<open>bpy.data.meshes.new(name)\<close>: a fresh, empty mesh under the name the registry assigns.\<close>

definition meshes_new :: "'m env \<Rightarrow> string \<Rightarrow> mesh" where
  "meshes_new mi_context n =
     \<lparr>name = assigned_name mi_context n, vertices = [], polygons = [],
      uv_layer = False, calls = []\<rparr>"

text \<open>
  Modelled from the spec: \<open>bl_transform_utils.mi_transform_to_bl_transform\<close> belongs to
  the add-on and is absent from the sources. Section 3 of the spec: the transform of an
  absent \<open>to_world\<close> is the identity.
\<close>

definition mi_transform_to_bl_transform :: "'m env \<Rightarrow> pval option \<Rightarrow> 'm" where
  "mi_transform_to_bl_transform mi_context t =
     (case t of None \<Rightarrow> matrix_identity mi_context
              | Some v \<Rightarrow> matrix_of_transform mi_context v)"

type_synonym 'm conversion = "(py_error + (mesh \<times> 'm) option) \<times> event list"

text \<open>
  Modelled from the spec: the format specification \<open>.2f\<close> in
  \<open>{end_time-start_time:.2f}\<close> is the interpreter's. Section 4.2 of the spec asks for the
  duration in seconds with two-decimal precision; the model is Python's fixed-point
  presentation: the value is rounded to the nearest hundredth, ties to even, and written
  as sign, integer part, point and two digits. The two clock readings lie within a
  factor of two of each other, so their floating-point difference is exact and is the
  subtraction of reals.
\<close>

definition round_half_even :: "real \<Rightarrow> int" where
  "round_half_even x =
     (let f = \<lfloor>x\<rfloor>; d = x - of_int f
      in if d < 1 / 2 then f else if 1 / 2 < d then f + 1 else if even f then f else f + 1)"

definition digit :: "nat \<Rightarrow> char" where
  "digit n = ''0123456789'' ! (n mod 10)"

fun decimal :: "nat \<Rightarrow> string" where
  "decimal n = (if n < 10 then [digit n] else decimal (n div 10) @ [digit n])"

definition format_2f :: "pyfloat \<Rightarrow> string" where
  "format_2f x =
     (let n = nat (round_half_even (\<bar>x\<bar> * 100))
      in (if x < 0 then ''-'' else []) @ decimal (n div 100) @ [CHR ''.'', digit (n div 10), digit n])"

subsection \<open>Converters\<close>

definition mi_ply_to_bl_shape :: "'m env \<Rightarrow> shape \<Rightarrow> 'm conversion" where
  "mi_ply_to_bl_shape mi_context mi_shape =
     (case props mi_shape ''filename'' of
        None \<Rightarrow> (Inl AssertionError, [])
      | Some filename \<Rightarrow>
          (let abs_path = resolve_scene_relative_path mi_context filename;
               ev = [ResolvePath filename, LoadPly abs_path (shape_id mi_shape)]
           in case load_ply_mesh mi_context abs_path (shape_id mi_shape) of
                None \<Rightarrow>
                  (Inr None,
                   ev @ [Log (''Cannot load PLY mesh file '' @ CHR 0x22
                               # format_value mi_context filename @ CHR 0x22 # ''.'') ''ERROR''])
              | Some bl_mesh \<Rightarrow>
                  (let bl_mesh' = set_bl_mesh_shading bl_mesh
                                    (shape_get mi_shape ''face_normals'' (PBool False)) (PBool False);
                       world_matrix = mi_transform_to_bl_transform mi_context
                                        (props mi_shape ''to_world'')
                   in (Inr (Some (bl_mesh', mi_space_to_bl_space mi_context world_matrix)), ev))))"

definition mi_obj_to_bl_shape :: "'m env \<Rightarrow> shape \<Rightarrow> 'm conversion" where
  "mi_obj_to_bl_shape mi_context mi_shape =
     (let start_time = time_time mi_context 0 in
      case props mi_shape ''filename'' of
        None \<Rightarrow> (Inl AssertionError, [])
      | Some filename \<Rightarrow>
          (let abs_path = resolve_scene_relative_path mi_context filename;
               bl_meshes = import_obj_load mi_context abs_path;
               ev = [ResolvePath filename, LoadObj abs_path]
                    @ (if length bl_meshes > 1
                       then [Log ''OBJ file containing more than one mesh. Only the first one will be loaded.'' ''WARN'']
                       else [])
           in case bl_meshes of
                [] \<Rightarrow> (Inl IndexError, ev)
              | first # _ \<Rightarrow>
                  (let bl_mesh = first\<lparr>name := assigned_name mi_context (shape_id mi_shape)\<rparr>;
                       bl_mesh' = set_bl_mesh_shading bl_mesh
                                    (shape_get mi_shape ''face_normals'' (PBool False)) (PBool False);
                       world_matrix = mi_transform_to_bl_transform mi_context
                                        (props mi_shape ''to_world'');
                       end_time = time_time mi_context 1
                   in (Inr (Some (bl_mesh', mi_space_to_bl_space mi_context world_matrix)),
                       ev @ [Log (''Loaded OBJ mesh '' @ CHR 0x22 # shape_id mi_shape @ CHR 0x22
                                   # ''. Took '' @ format_2f (end_time - start_time) @ ''s.'')
                               ''INFO'']))))"

definition mi_sphere_to_bl_shape :: "'m env \<Rightarrow> shape \<Rightarrow> 'm conversion" where
  "mi_sphere_to_bl_shape mi_context mi_shape =
     (let bl_mesh = meshes_new mi_context (shape_id mi_shape);
          (world_matrix, radius) =
            (if has_property mi_shape ''to_world''
             then (mi_space_to_bl_space mi_context
                     (mi_transform_to_bl_transform mi_context (props mi_shape ''to_world'')),
                   PFloat 1.0)
             else (Matrix_Translation mi_context
                     (mi_space_to_bl_space mi_context
                        (Vector mi_context (shape_get mi_shape ''center'' (PList [0.0, 0.0, 0.0])))),
                   shape_get mi_shape ''radius'' (PFloat 1.0)));
          bl_mesh1 = to_mesh (create_uvsphere mi_context 32 16 radius True) bl_mesh;
          bl_mesh2 = set_bl_mesh_shading bl_mesh1 (PBool False)
                       (shape_get mi_shape ''flip_normals'' (PBool False))
      in (Inr (Some (bl_mesh2, world_matrix)), [NewMesh (shape_id mi_shape)]))"

definition mi_disk_to_bl_shape :: "'m env \<Rightarrow> shape \<Rightarrow> 'm conversion" where
  "mi_disk_to_bl_shape mi_context mi_shape =
     (let bl_mesh = meshes_new mi_context (shape_id mi_shape);
          bl_mesh1 = to_mesh (create_circle mi_context True True 32 1.0 True) bl_mesh;
          bl_mesh2 = set_bl_mesh_shading bl_mesh1 (PBool True)
                       (shape_get mi_shape ''flip_normals'' (PBool False));
          world_matrix = mi_transform_to_bl_transform mi_context (props mi_shape ''to_world'')
      in (Inr (Some (bl_mesh2, mi_space_to_bl_space mi_context world_matrix)),
          [NewMesh (shape_id mi_shape)]))"

definition mi_rectangle_to_bl_shape :: "'m env \<Rightarrow> shape \<Rightarrow> 'm conversion" where
  "mi_rectangle_to_bl_shape mi_context mi_shape =
     (let bl_mesh = meshes_new mi_context (shape_id mi_shape);
          bl_mesh1 = to_mesh (create_grid mi_context 1 1 1.0 True) bl_mesh;
          bl_mesh2 = set_bl_mesh_shading bl_mesh1 (PBool True)
                       (shape_get mi_shape ''flip_normals'' (PBool False));
          world_matrix = mi_transform_to_bl_transform mi_context (props mi_shape ''to_world'')
      in (Inr (Some (bl_mesh2, mi_space_to_bl_space mi_context world_matrix)),
          [NewMesh (shape_id mi_shape)]))"

definition mi_cube_to_bl_shape :: "'m env \<Rightarrow> shape \<Rightarrow> 'm conversion" where
  "mi_cube_to_bl_shape mi_context mi_shape =
     (let bl_mesh = meshes_new mi_context (shape_id mi_shape);
          bl_mesh1 = to_mesh (create_cube 2.0 True) bl_mesh;
          bl_mesh2 = set_bl_mesh_shading bl_mesh1 (PBool True)
                       (shape_get mi_shape ''flip_normals'' (PBool False));
          world_matrix = mi_transform_to_bl_transform mi_context (props mi_shape ''to_world'')
      in (Inr (Some (bl_mesh2, mi_space_to_bl_space mi_context world_matrix)),
          [NewMesh (shape_id mi_shape)]))"

text \<open>
  \<open>a.reshape((n, 3))\<close> followed by the loop collecting \<open>tuple(a[i])\<close> for \<open>i < n\<close>:
  numpy raises \<open>ValueError\<close> unless the flat array has exactly \<open>3 * n\<close> entries.
\<close>

fun triples :: "'a list \<Rightarrow> ('a \<times> 'a \<times> 'a) list" where
  "triples (a # b # c # xs) = (a, b, c) # triples xs"
| "triples _ = []"

definition reshape3 :: "nat \<Rightarrow> 'a list \<Rightarrow> py_error + ('a \<times> 'a \<times> 'a) list" where
  "reshape3 n xs = (if length xs = n * 3 then Inr (triples xs) else Inl ValueError)"

text \<open>\<open>bl_mesh.from_pydata(verts_pydata, [], face_pydata)\<close> on a fresh mesh.\<close>

definition from_pydata :: "vertex list \<Rightarrow> (nat \<times> nat \<times> nat) list \<Rightarrow> mesh \<Rightarrow> mesh" where
  "from_pydata vs fs bl_mesh =
     bl_mesh\<lparr>vertices := vs,
             polygons := map (\<lambda>(a, b, c). \<lparr>loop = [a, b, c], use_smooth = False\<rparr>) fs\<rparr>"

definition mi_serialized_to_bl_shape :: "'m env \<Rightarrow> shape \<Rightarrow> 'm conversion" where
  "mi_serialized_to_bl_shape mi_context mi_shape =
     (let start_time = time_time mi_context 0 in
      case props mi_shape ''filename'' of
        None \<Rightarrow> (Inl AssertionError, [])
      | Some filename \<Rightarrow>
          (let abs_path = resolve_scene_relative_path mi_context filename;
               shape_index = props mi_shape ''shape_index'';
               ev = [ResolvePath filename, LoadDict (plugin_name mi_shape) abs_path shape_index]
           in case load_dict_traverse mi_context (plugin_name mi_shape) abs_path shape_index of
                Inl e \<Rightarrow> (Inl e, ev)
              | Inr params \<Rightarrow>
                  (let bl_mesh = meshes_new mi_context (shape_id mi_shape);
                       ev' = ev @ [NewMesh (shape_id mi_shape)]
                   in case reshape3 (vertex_count params) (vertex_positions params) of
                        Inl e \<Rightarrow> (Inl e, ev')
                      | Inr verts_pydata \<Rightarrow>
                          (case reshape3 (face_count params) (faces params) of
                             Inl e \<Rightarrow> (Inl e, ev')
                           | Inr face_pydata \<Rightarrow>
                               (let bl_mesh1 = calc_normals (from_pydata verts_pydata face_pydata bl_mesh);
                                    end_time = time_time mi_context 1;
                                    world_matrix = mi_transform_to_bl_transform mi_context
                                                     (props mi_shape ''to_world'')
                                in (Inr (Some (bl_mesh1, world_matrix)),
                                    ev' @ [Log (''Loaded serialized mesh '' @ CHR 0x22
                                                 # shape_id mi_shape @ CHR 0x22 # ''. Took ''
                                                 @ format_2f (end_time - start_time)
                                                 @ ''s.'') ''INFO'']))))))"

subsection \<open>Main import\<close>

definition shape_converters :: "(string \<times> ('m env \<Rightarrow> shape \<Rightarrow> 'm conversion)) list" where
  "shape_converters =
     [(''ply'', mi_ply_to_bl_shape),
      (''obj'', mi_obj_to_bl_shape),
      (''sphere'', mi_sphere_to_bl_shape),
      (''disk'', mi_disk_to_bl_shape),
      (''rectangle'', mi_rectangle_to_bl_shape),
      (''cube'', mi_cube_to_bl_shape),
      (''serialized'', mi_serialized_to_bl_shape)]"

text \<open>
  The dispatcher binds what the converter returns with \<open>bl_mesh, world_matrix = ...\<close>:
  unpacking \<open>None\<close> raises \<open>TypeError\<close>, a tuple is bound and returned again, an
  exception of the converter propagates.
\<close>

definition unpack :: "'m conversion \<Rightarrow> 'm conversion" where
  "unpack c = (case c of (Inr None, ev) \<Rightarrow> (Inl TypeError, ev) | _ \<Rightarrow> c)"

definition mi_shape_to_bl_shape :: "'m env \<Rightarrow> shape \<Rightarrow> 'm conversion" where
  "mi_shape_to_bl_shape mi_context mi_shape =
     (let shape_type = plugin_name mi_shape in
      case map_of shape_converters shape_type of
        None \<Rightarrow>
          (Inr None,
           [Log (''Mitsuba Shape type '' @ CHR 0x22 # shape_type @ CHR 0x22 # '' not supported.'')
              ''ERROR''])
      | Some converter \<Rightarrow> unpack (converter mi_context mi_shape))"

subsection \<open>Reading a conversion\<close>

definition returned_mesh :: "'m conversion \<Rightarrow> mesh option" where
  "returned_mesh c = (case fst c of Inr (Some (bl_mesh, world_matrix)) \<Rightarrow> Some bl_mesh | _ \<Rightarrow> None)"

definition returned_transform :: "'m conversion \<Rightarrow> 'm option" where
  "returned_transform c =
     (case fst c of Inr (Some (bl_mesh, world_matrix)) \<Rightarrow> Some world_matrix | _ \<Rightarrow> None)"

text \<open>The messages logged at one level, in order.\<close>

fun logged :: "string \<Rightarrow> event list \<Rightarrow> string list" where
  "logged lvl [] = []"
| "logged lvl (Log msg l # ev) = (if l = lvl then msg # logged lvl ev else logged lvl ev)"
| "logged lvl (_ # ev) = logged lvl ev"

text \<open>The windings and the shading flags of a mesh, polygon by polygon.\<close>

definition windings :: "mesh \<Rightarrow> nat list list" where
  "windings bl_mesh = map loop (polygons bl_mesh)"

definition smooth_flags :: "mesh \<Rightarrow> bool list" where
  "smooth_flags bl_mesh = map use_smooth (polygons bl_mesh)"

subsection \<open>A concrete scene\<close>

text \<open>
  Collaborators that keep apart everything they are given: matrices are the terms built
  from the \<open>mathutils\<close> and context calls, the scene directory holds one PLY file, two OBJ
  files and one serialized file. The mesh registry already holds a mesh named \<open>quad\<close>.
  The clock reads \<open>10\<close> and then \<open>11.375\<close>.
\<close>

datatype bl_term =
    Identity
  | OfTransform pval
  | ToBlSpace bl_term
  | Translation bl_term
  | Vec pval

definition tri_mesh :: mesh where
  "tri_mesh = \<lparr>name = ''tri'', vertices = [(0, 0, 0), (1, 0, 0), (0, 1, 0)],
               polygons = [\<lparr>loop = [0, 1, 2], use_smooth = False\<rparr>],
               uv_layer = False, calls = []\<rparr>"

definition quad_mesh :: mesh where
  "quad_mesh = \<lparr>name = ''quad'', vertices = [(0, 0, 0), (1, 0, 0), (1, 1, 0), (0, 1, 0)],
                polygons = [\<lparr>loop = [0, 1, 2, 3], use_smooth = True\<rparr>],
                uv_layer = False, calls = []\<rparr>"

definition scene_env :: "bl_term env" where
  "scene_env =
     \<lparr>resolve_scene_relative_path = (\<lambda>p. case p of PStr s \<Rightarrow> ''/scene/'' @ s | _ \<Rightarrow> ''/scene/''),
      mi_space_to_bl_space = ToBlSpace,
      matrix_identity = Identity,
      matrix_of_transform = OfTransform,
      Matrix_Translation = Translation,
      Vector = Vec,
      load_ply_mesh = (\<lambda>path n. if path = ''/scene/tri.ply'' then Some (tri_mesh\<lparr>name := n\<rparr>) else None),
      import_obj_load = (\<lambda>path. if path = ''/scene/two.obj'' then [tri_mesh, quad_mesh]
                                  else if path = ''/scene/one.obj'' then [quad_mesh] else []),
      create_uvsphere = (\<lambda>u v d uv. case d of
                           PFloat r \<Rightarrow> \<lparr>gverts = [(r, 0, 0), (0, r, 0), (0, 0, r)],
                                         gfaces = [[0, 1, 2]], guv = uv\<rparr>
                         | _ \<Rightarrow> \<lparr>gverts = [], gfaces = [], guv = uv\<rparr>),
      create_circle = (\<lambda>ends tris n r uv. \<lparr>gverts = [(0, 0, 0), (r, 0, 0), (0, r, 0)],
                                           gfaces = [[0, 1, 2]], guv = uv\<rparr>),
      create_grid = (\<lambda>xs ys s uv. \<lparr>gverts = [(- s, - s, 0), (s, - s, 0), (s, s, 0), (- s, s, 0)],
                                    gfaces = [[0, 1, 2, 3]], guv = uv\<rparr>),
      load_dict_traverse = (\<lambda>t path i. if path = ''/scene/tri.serialized'' \<and> i = Some (PInt 0)
                              then Inr \<lparr>vertex_count = 3, face_count = 1,
                                       vertex_positions = [0, 0, 0, 1, 0, 0, 0, 1, 0],
                                       faces = [0, 1, 2]\<rparr>
                              else Inl RuntimeError),
      time_time = (\<lambda>k. if k = 0 then 10 else 11.375),
      format_value = (\<lambda>v. case v of PStr s \<Rightarrow> s | _ \<Rightarrow> []),
      assigned_name = (\<lambda>n. if n = [] then ''Mesh'' else if n = ''quad'' then ''quad.001'' else n)\<rparr>"

definition file_shape :: "string \<Rightarrow> string \<Rightarrow> string \<Rightarrow> shape" where
  "file_shape kind n file =
     \<lparr>plugin_name = kind, shape_id = n, props = [''filename'' \<mapsto> PStr file]\<rparr>"

definition serialized_shape :: "string \<Rightarrow> string \<Rightarrow> shape" where
  "serialized_shape n file =
     \<lparr>plugin_name = ''serialized'', shape_id = n,
      props = [''filename'' \<mapsto> PStr file, ''shape_index'' \<mapsto> PInt 0]\<rparr>"

definition bare_shape :: "string \<Rightarrow> string \<Rightarrow> shape" where
  "bare_shape kind n = \<lparr>plugin_name = kind, shape_id = n, props = Map.empty\<rparr>"

section \<open>Properties\<close>

subsection \<open>Auxiliary facts\<close>

lemma dispatch_ply:
  "plugin_name sh = ''ply'' \<Longrightarrow> mi_shape_to_bl_shape env sh = unpack (mi_ply_to_bl_shape env sh)"
  by (simp add: mi_shape_to_bl_shape_def shape_converters_def)

lemma dispatch_obj:
  "plugin_name sh = ''obj'' \<Longrightarrow> mi_shape_to_bl_shape env sh = unpack (mi_obj_to_bl_shape env sh)"
  by (simp add: mi_shape_to_bl_shape_def shape_converters_def)

lemma dispatch_sphere:
  "plugin_name sh = ''sphere'' \<Longrightarrow> mi_shape_to_bl_shape env sh = unpack (mi_sphere_to_bl_shape env sh)"
  by (simp add: mi_shape_to_bl_shape_def shape_converters_def)

lemma dispatch_disk:
  "plugin_name sh = ''disk'' \<Longrightarrow> mi_shape_to_bl_shape env sh = unpack (mi_disk_to_bl_shape env sh)"
  by (simp add: mi_shape_to_bl_shape_def shape_converters_def)

lemma dispatch_rectangle:
  "plugin_name sh = ''rectangle'' \<Longrightarrow>
     mi_shape_to_bl_shape env sh = unpack (mi_rectangle_to_bl_shape env sh)"
  by (simp add: mi_shape_to_bl_shape_def shape_converters_def)

lemma dispatch_cube:
  "plugin_name sh = ''cube'' \<Longrightarrow> mi_shape_to_bl_shape env sh = unpack (mi_cube_to_bl_shape env sh)"
  by (simp add: mi_shape_to_bl_shape_def shape_converters_def)

lemma dispatch_serialized:
  "plugin_name sh = ''serialized'' \<Longrightarrow>
     mi_shape_to_bl_shape env sh = unpack (mi_serialized_to_bl_shape env sh)"
  by (simp add: mi_shape_to_bl_shape_def shape_converters_def)

lemma unpack_simps:
  "unpack (Inl e, ev) = (Inl e, ev)"
  "unpack (Inr None, ev) = (Inl TypeError, ev)"
  "unpack (Inr (Some r), ev) = (Inr (Some r), ev)"
  by (simp_all add: unpack_def)

lemma returned_mesh_unpack: "returned_mesh (unpack c) = returned_mesh c"
  by (cases c) (auto simp: unpack_def returned_mesh_def split: sum.splits option.splits)

lemma returned_transform_unpack: "returned_transform (unpack c) = returned_transform c"
  by (cases c) (auto simp: unpack_def returned_transform_def split: sum.splits option.splits)

lemma flip_loop_twice: "flip_loop (flip_loop l) = l"
  by (cases l) simp_all

lemma length_flip_loop: "length (flip_loop l) = length l"
  by (cases l) simp_all

lemma windings_shading:
  "windings (set_bl_mesh_shading m fs fl) =
     (if truthy fl then map flip_loop (windings m) else windings m)"
  by (simp add: set_bl_mesh_shading_def windings_def update_def flip_normals_def
      foreach_set_use_smooth_def calc_normals_def Let_def comp_def)

lemma smooth_flags_shading:
  "smooth_flags (set_bl_mesh_shading m fs fl) = replicate (length (polygons m)) (\<not> truthy fs)"
  by (simp add: set_bl_mesh_shading_def smooth_flags_def update_def flip_normals_def
      foreach_set_use_smooth_def calc_normals_def Let_def comp_def map_replicate_const)

lemma windings_rename: "windings (m\<lparr>name := n\<rparr>) = windings m"
  by (simp add: windings_def)

lemma vertices_shading: "vertices (set_bl_mesh_shading m fs fl) = vertices m"
  by (simp add: set_bl_mesh_shading_def update_def flip_normals_def
      foreach_set_use_smooth_def calc_normals_def Let_def)

lemma name_shading: "name (set_bl_mesh_shading m fs fl) = name m"
  by (simp add: set_bl_mesh_shading_def update_def flip_normals_def
      foreach_set_use_smooth_def calc_normals_def Let_def)

lemma length_polygons_shading:
  "length (polygons (set_bl_mesh_shading m fs fl)) = length (polygons m)"
  by (simp add: set_bl_mesh_shading_def update_def flip_normals_def
      foreach_set_use_smooth_def calc_normals_def Let_def)

lemma obj_loaded:
  assumes "props sh ''filename'' = Some fn"
    and "import_obj_load env (resolve_scene_relative_path env fn) = first # rest"
  shows "mi_obj_to_bl_shape env sh =
           (Inr (Some (set_bl_mesh_shading (first\<lparr>name := assigned_name env (shape_id sh)\<rparr>)
                         (shape_get sh ''face_normals'' (PBool False)) (PBool False),
                       mi_space_to_bl_space env (mi_transform_to_bl_transform env (props sh ''to_world'')))),
            [ResolvePath fn, LoadObj (resolve_scene_relative_path env fn)]
            @ (if rest \<noteq> []
               then [Log ''OBJ file containing more than one mesh. Only the first one will be loaded.'' ''WARN'']
               else [])
            @ [Log (''Loaded OBJ mesh '' @ CHR 0x22 # shape_id sh @ CHR 0x22 # ''. Took ''
                     @ format_2f (time_time env 1 - time_time env 0) @ ''s.'') ''INFO''])"
  using assms by (simp add: mi_obj_to_bl_shape_def Let_def)

lemma ply_returned:
  assumes "returned_mesh (mi_ply_to_bl_shape env sh) = Some m"
  shows "\<exists>fn m0. props sh ''filename'' = Some fn
           \<and> load_ply_mesh env (resolve_scene_relative_path env fn) (shape_id sh) = Some m0
           \<and> m = set_bl_mesh_shading m0 (shape_get sh ''face_normals'' (PBool False)) (PBool False)"
  using assms
  by (auto simp: mi_ply_to_bl_shape_def returned_mesh_def Let_def split: option.splits)

lemma obj_returned:
  assumes "returned_mesh (mi_obj_to_bl_shape env sh) = Some m"
  shows "\<exists>fn first rest. props sh ''filename'' = Some fn
           \<and> import_obj_load env (resolve_scene_relative_path env fn) = first # rest
           \<and> m = set_bl_mesh_shading (first\<lparr>name := assigned_name env (shape_id sh)\<rparr>)
                   (shape_get sh ''face_normals'' (PBool False)) (PBool False)"
  using assms
  by (auto simp: mi_obj_to_bl_shape_def returned_mesh_def Let_def split: option.splits list.splits)

lemma digit_is_digit: "digit n \<in> set ''0123456789''"
proof -
  have "n mod 10 < length ''0123456789''" by simp
  then show ?thesis unfolding digit_def by (rule nth_mem)
qed

lemma format_2f_two_decimals:
  "\<exists>whole a b. format_2f x = whole @ [CHR ''.'', a, b]
      \<and> a \<in> set ''0123456789'' \<and> b \<in> set ''0123456789''"
proof -
  let ?n = "nat (round_half_even (\<bar>x\<bar> * 100))"
  have "format_2f x = ((if x < 0 then ''-'' else []) @ decimal (?n div 100))
          @ [CHR ''.'', digit (?n div 10), digit ?n]"
    by (simp add: format_2f_def Let_def)
  with digit_is_digit [of "?n div 10"] digit_is_digit [of ?n] show ?thesis by blast
qed

lemma round_half_even_nearest: "\<bar>of_int (round_half_even y) - y\<bar> \<le> 1 / 2"
proof -
  have "of_int \<lfloor>y\<rfloor> \<le> y" "y < of_int \<lfloor>y\<rfloor> + 1" by linarith+
  then show ?thesis by (auto simp: round_half_even_def Let_def)
qed

lemmas scene_defs = scene_env_def file_shape_def bare_shape_def tri_mesh_def quad_mesh_def

subsection \<open>Unsupported kinds\<close>

text \<open>
  Claim C1. A shape whose kind is none of \<open>ply\<close>, \<open>obj\<close>, \<open>sphere\<close>, \<open>disk\<close>,
  \<open>rectangle\<close>, \<open>cube\<close>, \<open>serialized\<close> makes \<open>mi_shape_to_bl_shape\<close> return \<open>None\<close>; the
  only event of the call is one message at level \<open>ERROR\<close> that names the kind between
  double quotes. The call raises nothing and touches nothing else, so the caller can go
  on with the next shape.
\<close>

theorem unsupported_kind:
  assumes "plugin_name mi_shape \<notin> {''ply'', ''obj'', ''sphere'', ''disk'', ''rectangle'', ''cube'', ''serialized''}"
  shows "mi_shape_to_bl_shape mi_context mi_shape =
           (Inr None,
            [Log (''Mitsuba Shape type '' @ CHR 0x22 # plugin_name mi_shape @ CHR 0x22
                   # '' not supported.'') ''ERROR''])"
  using assms by (simp add: mi_shape_to_bl_shape_def shape_converters_def Let_def)

theorem unsupported_kind_witness:
  "mi_shape_to_bl_shape scene_env (bare_shape ''torus'' ''t'') =
     (Inr None,
      [Log (''Mitsuba Shape type '' @ CHR 0x22 # ''torus'' @ CHR 0x22 # '' not supported.'') ''ERROR''])"
  using unsupported_kind [of "bare_shape ''torus'' ''t''" scene_env]
  by (simp add: bare_shape_def)

subsection \<open>A PLY file that does not load\<close>

text \<open>
  Claim C2. When the PLY loader returns no mesh, \<open>mi_ply_to_bl_shape\<close> logs one \<open>ERROR\<close>
  and returns \<open>None\<close>. The dispatcher then unpacks that \<open>None\<close> as a pair, so the call of
  \<open>mi_shape_to_bl_shape\<close> ends in a \<open>TypeError\<close> instead of returning the failure.
\<close>

theorem ply_load_failure_raises:
  assumes "plugin_name sh = ''ply''"
    and "props sh ''filename'' = Some fn"
    and "load_ply_mesh env (resolve_scene_relative_path env fn) (shape_id sh) = None"
  shows "mi_ply_to_bl_shape env sh =
           (Inr None,
            [ResolvePath fn, LoadPly (resolve_scene_relative_path env fn) (shape_id sh),
             Log (''Cannot load PLY mesh file '' @ CHR 0x22 # format_value env fn @ CHR 0x22 # ''.'')
               ''ERROR''])
       \<and> mi_shape_to_bl_shape env sh =
           (Inl TypeError,
            [ResolvePath fn, LoadPly (resolve_scene_relative_path env fn) (shape_id sh),
             Log (''Cannot load PLY mesh file '' @ CHR 0x22 # format_value env fn @ CHR 0x22 # ''.'')
               ''ERROR''])"
proof -
  have conv: "mi_ply_to_bl_shape env sh =
           (Inr None,
            [ResolvePath fn, LoadPly (resolve_scene_relative_path env fn) (shape_id sh),
             Log (''Cannot load PLY mesh file '' @ CHR 0x22 # format_value env fn @ CHR 0x22 # ''.'')
               ''ERROR''])"
    using assms(2,3) by (simp add: mi_ply_to_bl_shape_def Let_def)
  show ?thesis
    unfolding dispatch_ply [OF assms(1)] conv by (simp add: unpack_simps)
qed

theorem ply_load_failure_raises_witness:
  "mi_shape_to_bl_shape scene_env (file_shape ''ply'' ''a'' ''missing.ply'') =
     (Inl TypeError,
      [ResolvePath (PStr ''missing.ply''), LoadPly ''/scene/missing.ply'' ''a'',
       Log (''Cannot load PLY mesh file '' @ CHR 0x22 # ''missing.ply'' @ CHR 0x22 # ''.'') ''ERROR''])"
  using ply_load_failure_raises [of "file_shape ''ply'' ''a'' ''missing.ply''" "PStr ''missing.ply''" scene_env]
  by (simp add: scene_defs)


subsection \<open>Shading of file-backed meshes\<close>

text \<open>
  Claim C3, as stated, fails: a PLY shape without \<open>face_normals\<close> comes back with its
  face marked smooth, since both loaders pass \<open>mi_shape.get('face_normals', False)\<close> as
  \<open>flat_shading\<close>.
\<close>

theorem ply_default_shading_is_smooth:
  "props (file_shape ''ply'' ''a'' ''tri.ply'') ''face_normals'' = None
   \<and> map_option smooth_flags
        (returned_mesh (mi_shape_to_bl_shape scene_env (file_shape ''ply'' ''a'' ''tri.ply'')))
       = Some [True]"
  by (simp add: scene_defs dispatch_ply mi_ply_to_bl_shape_def unpack_simps returned_mesh_def
      shape_get_def smooth_flags_shading smooth_flags_def set_bl_mesh_shading_def
      foreach_set_use_smooth_def calc_normals_def update_def Let_def)

text \<open>
  Claim C3, amended. The mesh a \<open>ply\<close> or \<open>obj\<close> shape returns has been through
  \<open>_set_bl_mesh_shading\<close> with \<open>flat_shading\<close> the value of \<open>face_normals\<close>, \<open>False\<close> when the
  property is absent, and no flip: without \<open>face_normals\<close> every face is marked smooth,
  with it every face is marked flat exactly when its value is true.
\<close>

theorem file_loader_shading:
  assumes "plugin_name sh = ''ply'' \<or> plugin_name sh = ''obj''"
    and "returned_mesh (mi_shape_to_bl_shape env sh) = Some m"
  shows "(\<exists>m0. m = set_bl_mesh_shading m0
                    (case props sh ''face_normals'' of None \<Rightarrow> PBool False | Some v \<Rightarrow> v)
                    (PBool False))
       \<and> smooth_flags m =
           replicate (length (polygons m))
             (case props sh ''face_normals'' of None \<Rightarrow> True | Some v \<Rightarrow> \<not> truthy v)"
proof -
  have "\<exists>m0. m = set_bl_mesh_shading m0 (shape_get sh ''face_normals'' (PBool False)) (PBool False)"
  proof (cases "plugin_name sh = ''ply''")
    case True
    then have "returned_mesh (mi_ply_to_bl_shape env sh) = Some m"
      using assms(2) by (simp add: dispatch_ply returned_mesh_unpack)
    from ply_returned [OF this] show ?thesis by blast
  next
    case False
    then have "plugin_name sh = ''obj''" using assms(1) by simp
    then have "returned_mesh (mi_obj_to_bl_shape env sh) = Some m"
      using assms(2) by (simp add: dispatch_obj returned_mesh_unpack)
    from obj_returned [OF this] show ?thesis by blast
  qed
  then obtain m0 where m: "m = set_bl_mesh_shading m0 (shape_get sh ''face_normals'' (PBool False)) (PBool False)"
    by blast
  have a: "shape_get sh ''face_normals'' (PBool False) =
        (case props sh ''face_normals'' of None \<Rightarrow> PBool False | Some v \<Rightarrow> v)"
    by (simp add: shape_get_def)
  have b: "(\<not> truthy (shape_get sh ''face_normals'' (PBool False))) =
        (case props sh ''face_normals'' of None \<Rightarrow> True | Some v \<Rightarrow> \<not> truthy v)"
    by (simp add: shape_get_def split: option.splits)
  show ?thesis
    using m a b by (auto simp: smooth_flags_shading length_polygons_shading)
qed

theorem file_loader_shading_witness:
  "smooth_flags (set_bl_mesh_shading (tri_mesh\<lparr>name := ''a''\<rparr>) (PBool False) (PBool False)) = [True]
   \<and> smooth_flags (set_bl_mesh_shading (quad_mesh\<lparr>name := ''b''\<rparr>) (PBool True) (PBool False)) = [False]"
proof -
  let ?ply = "file_shape ''ply'' ''a'' ''tri.ply''"
  let ?obj = "(file_shape ''obj'' ''b'' ''one.obj'')\<lparr>props := [''filename'' \<mapsto> PStr ''one.obj'', ''face_normals'' \<mapsto> PBool True]\<rparr>"
  let ?m1 = "set_bl_mesh_shading (tri_mesh\<lparr>name := ''a''\<rparr>) (PBool False) (PBool False)"
  let ?m2 = "set_bl_mesh_shading (quad_mesh\<lparr>name := ''b''\<rparr>) (PBool True) (PBool False)"
  have r1: "returned_mesh (mi_shape_to_bl_shape scene_env ?ply) = Some ?m1"
    by (simp add: scene_defs dispatch_ply mi_ply_to_bl_shape_def unpack_simps returned_mesh_def
        shape_get_def Let_def)
  have r2: "returned_mesh (mi_shape_to_bl_shape scene_env ?obj) = Some ?m2"
    by (simp add: scene_defs dispatch_obj mi_obj_to_bl_shape_def unpack_simps returned_mesh_def
        shape_get_def Let_def)
  have k1: "plugin_name ?ply = ''ply'' \<or> plugin_name ?ply = ''obj''"
    by (simp add: file_shape_def)
  have k2: "plugin_name ?obj = ''ply'' \<or> plugin_name ?obj = ''obj''"
    by (simp add: file_shape_def)
  have l1: "length (polygons ?m1) = 1"
    by (simp add: length_polygons_shading tri_mesh_def)
  have l2: "length (polygons ?m2) = 1"
    by (simp add: length_polygons_shading quad_mesh_def)
  show ?thesis
    using file_loader_shading [OF k1 r1] file_loader_shading [OF k2 r2] l1 l2
    by (simp add: file_shape_def)
qed

subsection \<open>Spheres\<close>

lemma sphere_result:
  "mi_sphere_to_bl_shape env sh =
     (Inr (Some
        (set_bl_mesh_shading
           (to_mesh (create_uvsphere env 32 16
                       (case props sh ''to_world'' of
                          Some t \<Rightarrow> PFloat 1
                        | None \<Rightarrow> (case props sh ''radius'' of None \<Rightarrow> PFloat 1 | Some r \<Rightarrow> r)) True)
              (meshes_new env (shape_id sh)))
           (PBool False) (shape_get sh ''flip_normals'' (PBool False)),
         case props sh ''to_world'' of
           Some t \<Rightarrow> mi_space_to_bl_space env (matrix_of_transform env t)
         | None \<Rightarrow> Matrix_Translation env (mi_space_to_bl_space env
                      (Vector env (case props sh ''center'' of None \<Rightarrow> PList [0, 0, 0] | Some c \<Rightarrow> c))))),
      [NewMesh (shape_id sh)])"
  by (simp add: mi_sphere_to_bl_shape_def has_property_def shape_get_def
      mi_transform_to_bl_transform_def Let_def split: option.splits)

text \<open>
  Claim C4. For a sphere with \<open>to_world\<close> the returned transform is that matrix taken
  to Blender space, the UV sphere (32 by 16 segments) is created with size argument
  \<open>1.0\<close>, and the \<open>radius\<close> property changes nothing. For a sphere without \<open>to_world\<close>
  the returned transform is the translation to the Blender-space image of \<open>center\<close>
  (the origin by default), and the UV sphere is created with size argument \<open>radius\<close>
  (\<open>1.0\<close> by default): the radius goes into the geometry, not into the transform.
\<close>

theorem sphere_placement:
  assumes "plugin_name sh = ''sphere''"
  shows "returned_transform (mi_shape_to_bl_shape env sh) =
           Some (case props sh ''to_world'' of
                   Some t \<Rightarrow> mi_space_to_bl_space env (matrix_of_transform env t)
                 | None \<Rightarrow> Matrix_Translation env (mi_space_to_bl_space env
                     (Vector env (case props sh ''center'' of None \<Rightarrow> PList [0, 0, 0] | Some c \<Rightarrow> c))))
       \<and> map_option vertices (returned_mesh (mi_shape_to_bl_shape env sh)) =
           Some (gverts (create_uvsphere env 32 16
                   (case props sh ''to_world'' of
                      Some t \<Rightarrow> PFloat 1
                    | None \<Rightarrow> (case props sh ''radius'' of None \<Rightarrow> PFloat 1 | Some r \<Rightarrow> r)) True))
       \<and> (props sh ''to_world'' \<noteq> None \<longrightarrow>
            mi_shape_to_bl_shape env (sh\<lparr>props := (props sh)(''radius'' := r)\<rparr>)
              = mi_shape_to_bl_shape env sh)"
proof -
  have d: "mi_shape_to_bl_shape env sh = unpack (mi_sphere_to_bl_shape env sh)"
    using assms by (rule dispatch_sphere)
  have d': "mi_shape_to_bl_shape env (sh\<lparr>props := (props sh)(''radius'' := r)\<rparr>)
              = unpack (mi_sphere_to_bl_shape env (sh\<lparr>props := (props sh)(''radius'' := r)\<rparr>))"
    using assms by (simp add: dispatch_sphere)
  have t: "returned_transform (mi_shape_to_bl_shape env sh) =
           Some (case props sh ''to_world'' of
                   Some t \<Rightarrow> mi_space_to_bl_space env (matrix_of_transform env t)
                 | None \<Rightarrow> Matrix_Translation env (mi_space_to_bl_space env
                     (Vector env (case props sh ''center'' of None \<Rightarrow> PList [0, 0, 0] | Some c \<Rightarrow> c))))"
    unfolding d returned_transform_unpack sphere_result by (simp add: returned_transform_def)
  have v: "map_option vertices (returned_mesh (mi_shape_to_bl_shape env sh)) =
           Some (gverts (create_uvsphere env 32 16
                   (case props sh ''to_world'' of
                      Some t \<Rightarrow> PFloat 1
                    | None \<Rightarrow> (case props sh ''radius'' of None \<Rightarrow> PFloat 1 | Some r \<Rightarrow> r)) True))"
    unfolding d returned_mesh_unpack sphere_result
    by (simp add: returned_mesh_def vertices_shading to_mesh_def)
  have i: "props sh ''to_world'' \<noteq> None \<Longrightarrow>
        mi_sphere_to_bl_shape env (sh\<lparr>props := (props sh)(''radius'' := r)\<rparr>)
          = mi_sphere_to_bl_shape env sh"
    unfolding sphere_result by (auto simp: shape_get_def)
  show ?thesis using t v i d d' by simp
qed

theorem sphere_placement_witness:
  "returned_transform (mi_shape_to_bl_shape scene_env
       \<lparr>plugin_name = ''sphere'', shape_id = ''s'',
        props = [''to_world'' \<mapsto> PTransform [], ''radius'' \<mapsto> PFloat 5]\<rparr>)
     = Some (ToBlSpace (OfTransform (PTransform [])))
   \<and> map_option vertices (returned_mesh (mi_shape_to_bl_shape scene_env
       \<lparr>plugin_name = ''sphere'', shape_id = ''s'',
        props = [''to_world'' \<mapsto> PTransform [], ''radius'' \<mapsto> PFloat 5]\<rparr>))
     = Some [(1, 0, 0), (0, 1, 0), (0, 0, 1)]
   \<and> mi_shape_to_bl_shape scene_env
       \<lparr>plugin_name = ''sphere'', shape_id = ''s'',
        props = [''to_world'' \<mapsto> PTransform [], ''radius'' \<mapsto> PFloat 7]\<rparr>
     = mi_shape_to_bl_shape scene_env
       \<lparr>plugin_name = ''sphere'', shape_id = ''s'',
        props = [''to_world'' \<mapsto> PTransform [], ''radius'' \<mapsto> PFloat 5]\<rparr>
   \<and> returned_transform (mi_shape_to_bl_shape scene_env
       \<lparr>plugin_name = ''sphere'', shape_id = ''s'',
        props = [''center'' \<mapsto> PList [1, 2, 3], ''radius'' \<mapsto> PFloat 2]\<rparr>)
     = Some (Translation (ToBlSpace (Vec (PList [1, 2, 3]))))
   \<and> map_option vertices (returned_mesh (mi_shape_to_bl_shape scene_env
       \<lparr>plugin_name = ''sphere'', shape_id = ''s'',
        props = [''center'' \<mapsto> PList [1, 2, 3], ''radius'' \<mapsto> PFloat 2]\<rparr>))
     = Some [(2, 0, 0), (0, 2, 0), (0, 0, 2)]"
  using sphere_placement [of "\<lparr>plugin_name = ''sphere'', shape_id = ''s'',
        props = [''to_world'' \<mapsto> PTransform [], ''radius'' \<mapsto> PFloat 5]\<rparr>" scene_env "Some (PFloat 7)"]
    sphere_placement [of "\<lparr>plugin_name = ''sphere'', shape_id = ''s'',
        props = [''center'' \<mapsto> PList [1, 2, 3], ''radius'' \<mapsto> PFloat 2]\<rparr>" scene_env None]
  by (simp add: scene_env_def)

subsection \<open>Transforms\<close>

lemma ply_transform:
  "returned_transform (mi_ply_to_bl_shape env sh) = Some w \<Longrightarrow>
     w = mi_space_to_bl_space env (mi_transform_to_bl_transform env (props sh ''to_world''))"
  by (auto simp: mi_ply_to_bl_shape_def returned_transform_def Let_def split: option.splits)

lemma obj_transform:
  "returned_transform (mi_obj_to_bl_shape env sh) = Some w \<Longrightarrow>
     w = mi_space_to_bl_space env (mi_transform_to_bl_transform env (props sh ''to_world''))"
  by (auto simp: mi_obj_to_bl_shape_def returned_transform_def Let_def
      split: option.splits list.splits)

lemma serialized_transform:
  "returned_transform (mi_serialized_to_bl_shape env sh) = Some w \<Longrightarrow>
     w = mi_transform_to_bl_transform env (props sh ''to_world'')"
  by (auto simp: mi_serialized_to_bl_shape_def returned_transform_def Let_def
      split: option.splits sum.splits)

lemma serialized_name:
  "returned_mesh (mi_serialized_to_bl_shape env sh) = Some m \<Longrightarrow>
     name m = assigned_name env (shape_id sh)"
  by (auto simp: mi_serialized_to_bl_shape_def returned_mesh_def Let_def calc_normals_def
      from_pydata_def meshes_new_def split: option.splits sum.splits)

lemma flat_primitive_transform:
  "returned_transform (mi_disk_to_bl_shape env sh) =
     Some (mi_space_to_bl_space env (mi_transform_to_bl_transform env (props sh ''to_world'')))"
  "returned_transform (mi_rectangle_to_bl_shape env sh) =
     Some (mi_space_to_bl_space env (mi_transform_to_bl_transform env (props sh ''to_world'')))"
  "returned_transform (mi_cube_to_bl_shape env sh) =
     Some (mi_space_to_bl_space env (mi_transform_to_bl_transform env (props sh ''to_world'')))"
  by (simp_all add: mi_disk_to_bl_shape_def mi_rectangle_to_bl_shape_def mi_cube_to_bl_shape_def
      returned_transform_def Let_def)

lemma sphere_transform:
  "returned_transform (mi_sphere_to_bl_shape env sh) =
     Some (if props sh ''to_world'' = None
           then Matrix_Translation env (mi_space_to_bl_space env
                  (Vector env (shape_get sh ''center'' (PList [0, 0, 0]))))
           else mi_space_to_bl_space env (mi_transform_to_bl_transform env (props sh ''to_world'')))"
  by (simp add: mi_sphere_to_bl_shape_def returned_transform_def has_property_def Let_def)

lemma unsupported_returns_nothing:
  assumes "plugin_name sh \<notin> {''ply'', ''obj'', ''sphere'', ''disk'', ''rectangle'', ''cube'', ''serialized''}"
  shows "returned_transform (mi_shape_to_bl_shape env sh) = None"
  using assms
  by (simp add: mi_shape_to_bl_shape_def shape_converters_def Let_def returned_transform_def)

text \<open>
  Claim C5, as stated, fails twice. A sphere without \<open>to_world\<close> returns a translation
  matrix that is built from the converted centre and is not itself passed through
  \<open>mi_space_to_bl_space\<close>. And a serialized shape whose id is already the name of a mesh
  gets the name the registry assigns instead, here \<open>quad.001\<close> for the id \<open>quad\<close>.
\<close>

theorem sphere_transform_not_converted:
  "plugin_name (bare_shape ''sphere'' ''s'') \<noteq> ''serialized''
   \<and> returned_transform (mi_shape_to_bl_shape scene_env (bare_shape ''sphere'' ''s''))
       = Some (Translation (ToBlSpace (Vec (PList [0, 0, 0]))))
   \<and> returned_transform (mi_shape_to_bl_shape scene_env (bare_shape ''sphere'' ''s''))
       \<noteq> Some (mi_space_to_bl_space scene_env
                 (mi_transform_to_bl_transform scene_env (props (bare_shape ''sphere'' ''s'') ''to_world'')))
   \<and> shape_id (serialized_shape ''quad'' ''tri.serialized'') = ''quad''
   \<and> map_option name
        (returned_mesh (mi_shape_to_bl_shape scene_env (serialized_shape ''quad'' ''tri.serialized'')))
       = Some ''quad.001''"
proof -
  have a: "returned_transform (mi_shape_to_bl_shape scene_env (bare_shape ''sphere'' ''s''))
       = Some (Translation (ToBlSpace (Vec (PList [0, 0, 0]))))"
    by (simp add: dispatch_sphere returned_transform_unpack sphere_transform bare_shape_def
        scene_env_def shape_get_def)
  have b: "mi_space_to_bl_space scene_env
             (mi_transform_to_bl_transform scene_env (props (bare_shape ''sphere'' ''s'') ''to_world''))
           = ToBlSpace Identity"
    by (simp add: bare_shape_def scene_env_def mi_transform_to_bl_transform_def)
  have c: "map_option name
        (returned_mesh (mi_shape_to_bl_shape scene_env (serialized_shape ''quad'' ''tri.serialized'')))
       = Some ''quad.001''"
    by (simp add: dispatch_serialized serialized_shape_def scene_env_def unpack_simps
        mi_serialized_to_bl_shape_def reshape3_def returned_mesh_def calc_normals_def
        from_pydata_def meshes_new_def Let_def)
  show ?thesis
    unfolding a b c by (simp add: bare_shape_def serialized_shape_def)
qed

text \<open>
  Claim C5, amended. Whenever a conversion returns a transform: for a \<open>serialized\<close>
  shape it is \<open>mi_transform_to_bl_transform(to_world)\<close>, the identity when \<open>to_world\<close> is
  absent, without the conversion to Blender space, and the mesh was created under the
  shape's id and carries the name the mesh registry assigns for that id; for a sphere
  without \<open>to_world\<close> it is the translation to the converted centre; for every other
  supported kind, and for a sphere with \<open>to_world\<close>, it is
  \<open>mi_transform_to_bl_transform(to_world)\<close> passed through \<open>mi_space_to_bl_space\<close>.
\<close>

theorem transform_by_kind:
  assumes "returned_transform (mi_shape_to_bl_shape env sh) = Some w"
  shows "w = (if plugin_name sh = ''serialized''
              then mi_transform_to_bl_transform env (props sh ''to_world'')
              else if plugin_name sh = ''sphere'' \<and> props sh ''to_world'' = None
              then Matrix_Translation env (mi_space_to_bl_space env
                     (Vector env (shape_get sh ''center'' (PList [0, 0, 0]))))
              else mi_space_to_bl_space env (mi_transform_to_bl_transform env (props sh ''to_world'')))
       \<and> mi_transform_to_bl_transform env None = matrix_identity env
       \<and> (plugin_name sh = ''serialized'' \<longrightarrow>
            map_option name (returned_mesh (mi_shape_to_bl_shape env sh))
              = Some (assigned_name env (shape_id sh)))"
proof -
  consider (ply) "plugin_name sh = ''ply''" | (obj) "plugin_name sh = ''obj''"
    | (sphere) "plugin_name sh = ''sphere''" | (disk) "plugin_name sh = ''disk''"
    | (rectangle) "plugin_name sh = ''rectangle''" | (cube) "plugin_name sh = ''cube''"
    | (serialized) "plugin_name sh = ''serialized''"
    | (other) "plugin_name sh \<notin> {''ply'', ''obj'', ''sphere'', ''disk'', ''rectangle'', ''cube'', ''serialized''}"
    by auto
  then have w: "w = (if plugin_name sh = ''serialized''
              then mi_transform_to_bl_transform env (props sh ''to_world'')
              else if plugin_name sh = ''sphere'' \<and> props sh ''to_world'' = None
              then Matrix_Translation env (mi_space_to_bl_space env
                     (Vector env (shape_get sh ''center'' (PList [0, 0, 0]))))
              else mi_space_to_bl_space env (mi_transform_to_bl_transform env (props sh ''to_world'')))"
  proof cases
    case ply
    with assms have "returned_transform (mi_ply_to_bl_shape env sh) = Some w"
      by (simp add: dispatch_ply returned_transform_unpack)
    from ply_transform [OF this] ply show ?thesis by simp
  next
    case obj
    with assms have "returned_transform (mi_obj_to_bl_shape env sh) = Some w"
      by (simp add: dispatch_obj returned_transform_unpack)
    from obj_transform [OF this] obj show ?thesis by simp
  next
    case sphere
    with assms show ?thesis
      by (auto simp: dispatch_sphere returned_transform_unpack sphere_transform)
  next
    case disk
    with assms show ?thesis
      by (auto simp: dispatch_disk returned_transform_unpack flat_primitive_transform)
  next
    case rectangle
    with assms show ?thesis
      by (auto simp: dispatch_rectangle returned_transform_unpack flat_primitive_transform)
  next
    case cube
    with assms show ?thesis
      by (auto simp: dispatch_cube returned_transform_unpack flat_primitive_transform)
  next
    case serialized
    with assms have "returned_transform (mi_serialized_to_bl_shape env sh) = Some w"
      by (simp add: dispatch_serialized returned_transform_unpack)
    from serialized_transform [OF this] serialized show ?thesis by simp
  next
    case other
    from unsupported_returns_nothing [OF this, of env] assms show ?thesis by simp
  qed
  have n: "map_option name (returned_mesh (mi_shape_to_bl_shape env sh))
             = Some (assigned_name env (shape_id sh))"
    if s: "plugin_name sh = ''serialized''"
  proof -
    from assms obtain m where "returned_mesh (mi_shape_to_bl_shape env sh) = Some m"
      by (auto simp: returned_transform_def returned_mesh_def split: sum.splits option.splits)
    moreover from this s have "name m = assigned_name env (shape_id sh)"
      by (simp add: dispatch_serialized returned_mesh_unpack serialized_name)
    ultimately show ?thesis by simp
  qed
  show ?thesis using w n by (simp add: mi_transform_to_bl_transform_def)
qed

theorem transform_by_kind_witness:
  "returned_transform (mi_shape_to_bl_shape scene_env (serialized_shape ''a'' ''tri.serialized''))
     = Some Identity
   \<and> map_option name (returned_mesh
        (mi_shape_to_bl_shape scene_env (serialized_shape ''a'' ''tri.serialized'')))
     = Some ''a''
   \<and> returned_transform (mi_shape_to_bl_shape scene_env (bare_shape ''cube'' ''c''))
     = Some (ToBlSpace Identity)
   \<and> returned_transform (mi_shape_to_bl_shape scene_env (bare_shape ''sphere'' ''s''))
     = Some (Translation (ToBlSpace (Vec (PList [0, 0, 0]))))"
proof -
  have a: "returned_transform (mi_shape_to_bl_shape scene_env (serialized_shape ''a'' ''tri.serialized''))
     = Some Identity"
    by (simp add: dispatch_serialized serialized_shape_def scene_env_def unpack_simps
        mi_serialized_to_bl_shape_def reshape3_def returned_transform_def
        mi_transform_to_bl_transform_def Let_def)
  have b: "returned_transform (mi_shape_to_bl_shape scene_env (bare_shape ''cube'' ''c''))
     = Some (ToBlSpace Identity)"
    by (simp add: dispatch_cube returned_transform_unpack flat_primitive_transform bare_shape_def
        scene_env_def mi_transform_to_bl_transform_def)
  have c: "returned_transform (mi_shape_to_bl_shape scene_env (bare_shape ''sphere'' ''s''))
     = Some (Translation (ToBlSpace (Vec (PList [0, 0, 0]))))"
    by (simp add: dispatch_sphere returned_transform_unpack sphere_transform bare_shape_def
        scene_env_def shape_get_def)
  have i: "assigned_name scene_env (shape_id (serialized_shape ''a'' ''tri.serialized'')) = ''a''"
    "plugin_name (serialized_shape ''a'' ''tri.serialized'') = ''serialized''"
    by (simp_all add: serialized_shape_def scene_env_def)
  have "map_option name (returned_mesh
        (mi_shape_to_bl_shape scene_env (serialized_shape ''a'' ''tri.serialized''))) = Some ''a''"
    using transform_by_kind [OF a, THEN conjunct2, THEN conjunct2] i by simp
  with a b c transform_by_kind [OF b] transform_by_kind [OF c] show ?thesis
    by (intro conjI)
qed

subsection \<open>OBJ files\<close>

text \<open>
  Claim C6, as stated, fails in its renaming: \<open>bl_mesh.name = mi_shape.id()\<close> asks for a
  name, and the registry keeps names unique. For the two-mesh file and the id \<open>quad\<close>,
  the name of the file's unused second mesh, the returned mesh is called \<open>quad.001\<close>.
\<close>

theorem obj_name_collision:
  "shape_id (file_shape ''obj'' ''quad'' ''two.obj'') = ''quad''
   \<and> map_option name
        (returned_mesh (mi_shape_to_bl_shape scene_env (file_shape ''obj'' ''quad'' ''two.obj'')))
       = Some ''quad.001''"
  by (simp add: dispatch_obj file_shape_def scene_env_def unpack_simps mi_obj_to_bl_shape_def
      returned_mesh_def name_shading tri_mesh_def quad_mesh_def Let_def)

text \<open>
  Claim C6, amended. For an \<open>obj\<close> shape whose loader returns at least one mesh, the
  conversion returns entry zero, given the name the mesh registry assigns for the
  shape's id, and shaded; the other entries are not used. One \<open>WARN\<close> is logged when
  there is more than one entry and none when there is exactly one. One \<open>INFO\<close> names
  the id between double quotes and gives the second clock reading minus the first in
  fixed-point form, which ends in a point and two decimal digits. No \<open>ERROR\<close> is logged.
\<close>

theorem obj_first_mesh_only:
  assumes "plugin_name sh = ''obj''"
    and "props sh ''filename'' = Some fn"
    and "import_obj_load env (resolve_scene_relative_path env fn) = first # rest"
  shows "returned_mesh (mi_shape_to_bl_shape env sh) =
           Some (set_bl_mesh_shading (first\<lparr>name := assigned_name env (shape_id sh)\<rparr>)
                   (shape_get sh ''face_normals'' (PBool False)) (PBool False))
       \<and> map_option name (returned_mesh (mi_shape_to_bl_shape env sh))
           = Some (assigned_name env (shape_id sh))
       \<and> map_option vertices (returned_mesh (mi_shape_to_bl_shape env sh)) = Some (vertices first)
       \<and> map_option windings (returned_mesh (mi_shape_to_bl_shape env sh)) = Some (windings first)
       \<and> logged ''WARN'' (snd (mi_shape_to_bl_shape env sh)) =
           (if rest = [] then []
            else [''OBJ file containing more than one mesh. Only the first one will be loaded.''])
       \<and> logged ''INFO'' (snd (mi_shape_to_bl_shape env sh)) =
           [''Loaded OBJ mesh '' @ CHR 0x22 # shape_id sh @ CHR 0x22 # ''. Took ''
             @ format_2f (time_time env 1 - time_time env 0) @ ''s.'']
       \<and> (\<exists>whole a b. format_2f (time_time env 1 - time_time env 0) = whole @ [CHR ''.'', a, b]
             \<and> a \<in> set ''0123456789'' \<and> b \<in> set ''0123456789'')
       \<and> logged ''ERROR'' (snd (mi_shape_to_bl_shape env sh)) = []"
proof -
  have d: "mi_shape_to_bl_shape env sh = unpack (mi_obj_to_bl_shape env sh)"
    using assms(1) by (rule dispatch_obj)
  have r: "returned_mesh (mi_shape_to_bl_shape env sh) =
           Some (set_bl_mesh_shading (first\<lparr>name := assigned_name env (shape_id sh)\<rparr>)
                   (shape_get sh ''face_normals'' (PBool False)) (PBool False))"
    unfolding d obj_loaded [OF assms(2,3)] by (simp add: unpack_simps returned_mesh_def)
  have n: "map_option name (returned_mesh (mi_shape_to_bl_shape env sh))
           = Some (assigned_name env (shape_id sh))"
    unfolding r by (simp add: name_shading)
  have v: "map_option vertices (returned_mesh (mi_shape_to_bl_shape env sh)) = Some (vertices first)"
    unfolding r by (simp add: vertices_shading)
  have w: "map_option windings (returned_mesh (mi_shape_to_bl_shape env sh)) = Some (windings first)"
    unfolding r by (simp add: windings_shading windings_rename)
  have lw: "logged ''WARN'' (snd (mi_shape_to_bl_shape env sh)) =
           (if rest = [] then []
            else [''OBJ file containing more than one mesh. Only the first one will be loaded.''])"
    unfolding d obj_loaded [OF assms(2,3)] by (simp add: unpack_simps)
  have li: "logged ''INFO'' (snd (mi_shape_to_bl_shape env sh)) =
           [''Loaded OBJ mesh '' @ CHR 0x22 # shape_id sh @ CHR 0x22 # ''. Took ''
             @ format_2f (time_time env 1 - time_time env 0) @ ''s.'']"
    unfolding d obj_loaded [OF assms(2,3)] by (simp add: unpack_simps)
  have le: "logged ''ERROR'' (snd (mi_shape_to_bl_shape env sh)) = []"
    unfolding d obj_loaded [OF assms(2,3)] by (simp add: unpack_simps)
  from r n v w lw li format_2f_two_decimals [of "time_time env 1 - time_time env 0"] le
  show ?thesis by (intro conjI)
qed

theorem obj_first_mesh_only_witness:
  "map_option windings (returned_mesh (mi_shape_to_bl_shape scene_env (file_shape ''obj'' ''a'' ''two.obj'')))
     = Some [[0, 1, 2]]
   \<and> map_option name (returned_mesh (mi_shape_to_bl_shape scene_env (file_shape ''obj'' ''a'' ''two.obj'')))
     = Some ''a''
   \<and> logged ''WARN'' (snd (mi_shape_to_bl_shape scene_env (file_shape ''obj'' ''a'' ''two.obj'')))
     = [''OBJ file containing more than one mesh. Only the first one will be loaded.'']
   \<and> logged ''INFO'' (snd (mi_shape_to_bl_shape scene_env (file_shape ''obj'' ''a'' ''two.obj'')))
     = [''Loaded OBJ mesh '' @ CHR 0x22 # ''a'' @ CHR 0x22 # ''. Took 1.38s.'']
   \<and> map_option windings (returned_mesh (mi_shape_to_bl_shape scene_env (file_shape ''obj'' ''b'' ''one.obj'')))
     = Some [[0, 1, 2, 3]]
   \<and> logged ''WARN'' (snd (mi_shape_to_bl_shape scene_env (file_shape ''obj'' ''b'' ''one.obj''))) = []
   \<and> logged ''INFO'' (snd (mi_shape_to_bl_shape scene_env (file_shape ''obj'' ''b'' ''one.obj'')))
     = [''Loaded OBJ mesh '' @ CHR 0x22 # ''b'' @ CHR 0x22 # ''. Took 1.38s.'']"
proof -
  let ?two = "file_shape ''obj'' ''a'' ''two.obj''"
  let ?one = "file_shape ''obj'' ''b'' ''one.obj''"
  have k: "plugin_name ?two = ''obj''" "plugin_name ?one = ''obj''"
    by (simp_all add: file_shape_def)
  have f: "props ?two ''filename'' = Some (PStr ''two.obj'')"
    "props ?one ''filename'' = Some (PStr ''one.obj'')"
    by (simp_all add: file_shape_def)
  have l: "import_obj_load scene_env (resolve_scene_relative_path scene_env (PStr ''two.obj''))
             = tri_mesh # [quad_mesh]"
    "import_obj_load scene_env (resolve_scene_relative_path scene_env (PStr ''one.obj''))
             = quad_mesh # []"
    by (simp_all add: scene_env_def)
  note two = obj_first_mesh_only [OF k(1) f(1) l(1)]
  note one = obj_first_mesh_only [OF k(2) f(2) l(2)]
  have t: "format_2f (time_time scene_env 1 - time_time scene_env 0) = ''1.38''"
    by (simp add: scene_env_def format_2f_def round_half_even_def digit_def Let_def)
  have i: "shape_id ?two = ''a''" "shape_id ?one = ''b''"
    "assigned_name scene_env (shape_id ?two) = ''a''"
    "windings tri_mesh = [[0, 1, 2]]" "windings quad_mesh = [[0, 1, 2, 3]]"
    by (simp_all add: file_shape_def scene_env_def windings_def tri_mesh_def quad_mesh_def)
  have "map_option windings (returned_mesh (mi_shape_to_bl_shape scene_env ?two)) = Some [[0, 1, 2]]"
    using two [THEN conjunct2, THEN conjunct2, THEN conjunct2, THEN conjunct1] i by simp
  moreover have "map_option name (returned_mesh (mi_shape_to_bl_shape scene_env ?two)) = Some ''a''"
    using two [THEN conjunct2, THEN conjunct1] i(3) by simp
  moreover have "logged ''WARN'' (snd (mi_shape_to_bl_shape scene_env ?two))
     = [''OBJ file containing more than one mesh. Only the first one will be loaded.'']"
    using two [THEN conjunct2, THEN conjunct2, THEN conjunct2, THEN conjunct2, THEN conjunct1] by simp
  moreover have "logged ''INFO'' (snd (mi_shape_to_bl_shape scene_env ?two))
     = [''Loaded OBJ mesh '' @ CHR 0x22 # ''a'' @ CHR 0x22 # ''. Took 1.38s.'']"
    using two [THEN conjunct2, THEN conjunct2, THEN conjunct2, THEN conjunct2, THEN conjunct2, THEN conjunct1]
      t i(1)
    by simp
  moreover have "map_option windings (returned_mesh (mi_shape_to_bl_shape scene_env ?one))
     = Some [[0, 1, 2, 3]]"
    using one [THEN conjunct2, THEN conjunct2, THEN conjunct2, THEN conjunct1] i by simp
  moreover have "logged ''WARN'' (snd (mi_shape_to_bl_shape scene_env ?one)) = []"
    using one [THEN conjunct2, THEN conjunct2, THEN conjunct2, THEN conjunct2, THEN conjunct1] by simp
  moreover have "logged ''INFO'' (snd (mi_shape_to_bl_shape scene_env ?one))
     = [''Loaded OBJ mesh '' @ CHR 0x22 # ''b'' @ CHR 0x22 # ''. Took 1.38s.'']"
    using one [THEN conjunct2, THEN conjunct2, THEN conjunct2, THEN conjunct2, THEN conjunct2, THEN conjunct1]
      t i(2)
    by simp
  ultimately show ?thesis by (intro conjI)
qed

subsection \<open>Flipping normals\<close>

lemma flip_normals_twice: "flip_normals (flip_normals m) = m"
  by (simp add: flip_normals_def comp_def flip_loop_twice)

lemma rotate1_flip_loop: "rotate1 (flip_loop l) = rev l"
  by (cases l) simp_all

text \<open>
  Claim C7. For either shading mode, \<open>_set_bl_mesh_shading\<close> with \<open>flip_normals=True\<close>
  gives the result of \<open>flip_normals=False\<close> with every polygon's winding inverted and
  the shading flags unchanged: the flip comes after the shading step. An inverted loop
  is the reversed loop up to its start vertex. Flipping twice restores the mesh, and two
  flipped passes of the normalizer restore the original windings.
\<close>

theorem flip_normals_law:
  "set_bl_mesh_shading m fs (PBool True) = flip_normals (set_bl_mesh_shading m fs (PBool False))
   \<and> windings (set_bl_mesh_shading m fs (PBool False)) = windings m
   \<and> windings (set_bl_mesh_shading m fs (PBool True)) = map flip_loop (windings m)
   \<and> smooth_flags (set_bl_mesh_shading m fs (PBool True))
       = smooth_flags (set_bl_mesh_shading m fs (PBool False))
   \<and> rotate1 (flip_loop l) = rev l
   \<and> flip_normals (flip_normals m) = m
   \<and> windings (set_bl_mesh_shading (set_bl_mesh_shading m fs (PBool True)) fs' (PBool True))
       = windings m"
proof -
  have a: "set_bl_mesh_shading m fs (PBool True) = flip_normals (set_bl_mesh_shading m fs (PBool False))"
    by (simp add: set_bl_mesh_shading_def update_def flip_normals_def Let_def)
  have b: "windings (set_bl_mesh_shading (set_bl_mesh_shading m fs (PBool True)) fs' (PBool True))
       = windings m"
    by (simp add: windings_shading comp_def flip_loop_twice)
  have c: "smooth_flags (set_bl_mesh_shading m fs (PBool True))
       = smooth_flags (set_bl_mesh_shading m fs (PBool False))"
    by (simp add: smooth_flags_shading)
  have d: "windings (set_bl_mesh_shading m fs (PBool False)) = windings m"
    "windings (set_bl_mesh_shading m fs (PBool True)) = map flip_loop (windings m)"
    by (simp_all add: windings_shading)
  from a d c rotate1_flip_loop flip_normals_twice b show ?thesis
    by (intro conjI)
qed

subsection \<open>Missing file names\<close>

text \<open>
  Claim C8. Without a \<open>filename\<close> property the \<open>ply\<close>, \<open>obj\<close> and \<open>serialized\<close>
  converters end in an \<open>AssertionError\<close> with no event at all: no path was resolved, no
  loader was called, nothing was logged. The dispatcher passes the exception on.
\<close>

theorem missing_filename_asserts:
  assumes "props sh ''filename'' = None"
  shows "mi_ply_to_bl_shape env sh = (Inl AssertionError, [])
       \<and> mi_obj_to_bl_shape env sh = (Inl AssertionError, [])
       \<and> mi_serialized_to_bl_shape env sh = (Inl AssertionError, [])
       \<and> (plugin_name sh \<in> {''ply'', ''obj'', ''serialized''} \<longrightarrow>
            mi_shape_to_bl_shape env sh = (Inl AssertionError, []))"
proof -
  have c: "mi_ply_to_bl_shape env sh = (Inl AssertionError, [])"
    "mi_obj_to_bl_shape env sh = (Inl AssertionError, [])"
    "mi_serialized_to_bl_shape env sh = (Inl AssertionError, [])"
    using assms
    by (simp_all add: mi_ply_to_bl_shape_def mi_obj_to_bl_shape_def mi_serialized_to_bl_shape_def)
  show ?thesis
    using c by (auto simp: dispatch_ply dispatch_obj dispatch_serialized unpack_simps)
qed

theorem missing_filename_asserts_witness:
  "mi_shape_to_bl_shape scene_env (bare_shape ''serialized'' ''x'') = (Inl AssertionError, [])
   \<and> mi_ply_to_bl_shape scene_env (bare_shape ''serialized'' ''x'') = (Inl AssertionError, [])
   \<and> mi_obj_to_bl_shape scene_env (bare_shape ''serialized'' ''x'') = (Inl AssertionError, [])"
  using missing_filename_asserts [of "bare_shape ''serialized'' ''x''" scene_env]
  by (simp add: bare_shape_def)

subsection \<open>Cubes\<close>

lemma cube_result:
  "returned_mesh (mi_cube_to_bl_shape env sh) =
     Some (set_bl_mesh_shading (to_mesh (create_cube 2 True) (meshes_new env (shape_id sh)))
             (PBool True) (shape_get sh ''flip_normals'' (PBool False)))"
  by (simp add: mi_cube_to_bl_shape_def returned_mesh_def Let_def)

lemma cube_vertices:
  "vertices (to_mesh (create_cube 2 True) (meshes_new env n)) =
     [(- 1, - 1, - 1), (- 1, - 1, 1), (- 1, 1, - 1), (- 1, 1, 1),
      (1, - 1, - 1), (1, - 1, 1), (1, 1, - 1), (1, 1, 1)]"
  by (simp add: to_mesh_def create_cube_def meshes_new_def Let_def)

lemma cube_windings:
  "windings (to_mesh (create_cube 2 True) (meshes_new env n)) =
     [[0, 1, 3, 2], [2, 3, 7, 6], [6, 7, 5, 4], [4, 5, 1, 0], [2, 6, 4, 0], [7, 3, 1, 5]]"
  by (simp add: to_mesh_def create_cube_def meshes_new_def windings_def Let_def)

lemma corners:
  "set ([(- 1, - 1, - 1), (- 1, - 1, 1), (- 1, 1, - 1), (- 1, 1, 1),
         (1, - 1, - 1), (1, - 1, 1), (1, 1, - 1), (1, 1, 1)] :: vertex list)
     = {(x, y, z). x \<in> {- 1, 1} \<and> y \<in> {- 1, 1} \<and> z \<in> {- 1, 1}}"
proof (rule set_eqI)
  fix p :: "real \<times> real \<times> real"
  obtain x y z where p: "p = (x, y, z)" by (cases p)
  show "p \<in> set [(- 1, - 1, - 1), (- 1, - 1, 1), (- 1, 1, - 1), (- 1, 1, 1),
        (1, - 1, - 1), (1, - 1, 1), (1, 1, - 1), (1, 1, 1)]
     \<longleftrightarrow> p \<in> {(x, y, z). x \<in> {- 1, 1} \<and> y \<in> {- 1, 1} \<and> z \<in> {- 1, 1}}"
    unfolding p by (simp; blast)
qed

text \<open>
  Claim C9. Every cube shape returns a mesh created with edge length \<open>2.0\<close>: eight
  distinct vertices, exactly the corners of the box from \<open>-1\<close> to \<open>1\<close> on every axis, and
  six faces of four vertices each.
\<close>

theorem cube_geometry:
  assumes "plugin_name sh = ''cube''"
  shows "\<exists>m. returned_mesh (mi_shape_to_bl_shape env sh) = Some m
           \<and> length (vertices m) = 8
           \<and> distinct (vertices m)
           \<and> set (vertices m) = {(x, y, z). x \<in> {- 1, 1} \<and> y \<in> {- 1, 1} \<and> z \<in> {- 1, 1}}
           \<and> map length (windings m) = [4, 4, 4, 4, 4, 4]"
proof -
  let ?m = "set_bl_mesh_shading (to_mesh (create_cube 2 True) (meshes_new env (shape_id sh)))
             (PBool True) (shape_get sh ''flip_normals'' (PBool False))"
  have r: "returned_mesh (mi_shape_to_bl_shape env sh) = Some ?m"
    using assms by (simp add: dispatch_cube returned_mesh_unpack cube_result)
  have v: "vertices ?m = [(- 1, - 1, - 1), (- 1, - 1, 1), (- 1, 1, - 1), (- 1, 1, 1),
      (1, - 1, - 1), (1, - 1, 1), (1, 1, - 1), (1, 1, 1)]"
    by (simp only: vertices_shading cube_vertices)
  have l: "length (vertices ?m) = 8" by (simp only: v) simp
  have d: "distinct (vertices ?m)" by (simp only: v) simp
  have s: "set (vertices ?m) = {(x, y, z). x \<in> {- 1, 1} \<and> y \<in> {- 1, 1} \<and> z \<in> {- 1, 1}}"
    by (simp only: v corners)
  have w: "map length (windings ?m) = [4, 4, 4, 4, 4, 4]"
    by (simp add: windings_shading cube_windings comp_def length_flip_loop)
  from r l d s w show ?thesis by (intro exI [of _ ?m] conjI)
qed

theorem cube_geometry_witness:
  "\<exists>m. returned_mesh (mi_shape_to_bl_shape scene_env (bare_shape ''cube'' ''c'')) = Some m
         \<and> length (vertices m) = 8
         \<and> distinct (vertices m)
         \<and> set (vertices m) = {(x, y, z). x \<in> {- 1, 1} \<and> y \<in> {- 1, 1} \<and> z \<in> {- 1, 1}}
         \<and> map length (windings m) = [4, 4, 4, 4, 4, 4]"
proof -
  have "plugin_name (bare_shape ''cube'' ''c'') = ''cube''"
    by (simp add: bare_shape_def)
  then show ?thesis by (rule cube_geometry)
qed

subsection \<open>File-backed meshes are never flipped\<close>

lemma ply_ignores_flip:
  "mi_ply_to_bl_shape env (sh\<lparr>props := (props sh)(''flip_normals'' := v)\<rparr>) = mi_ply_to_bl_shape env sh"
  by (simp add: mi_ply_to_bl_shape_def shape_get_def Let_def split: option.splits)

lemma obj_ignores_flip:
  "mi_obj_to_bl_shape env (sh\<lparr>props := (props sh)(''flip_normals'' := v)\<rparr>) = mi_obj_to_bl_shape env sh"
  by (simp add: mi_obj_to_bl_shape_def shape_get_def Let_def split: option.splits list.splits)

text \<open>
  Claim C10. For a \<open>ply\<close> or \<open>obj\<close> shape the whole conversion, result and events, is
  the same whatever \<open>flip_normals\<close> holds, present or absent; and the mesh it returns has
  the windings of the mesh the loader delivered.
\<close>

theorem file_loaders_never_flip:
  assumes "plugin_name sh = ''ply'' \<or> plugin_name sh = ''obj''"
  shows "mi_shape_to_bl_shape env (sh\<lparr>props := (props sh)(''flip_normals'' := v)\<rparr>)
           = mi_shape_to_bl_shape env sh
       \<and> (\<forall>m. returned_mesh (mi_shape_to_bl_shape env sh) = Some m \<longrightarrow>
            (\<exists>fn m0. props sh ''filename'' = Some fn
               \<and> (if plugin_name sh = ''ply''
                   then load_ply_mesh env (resolve_scene_relative_path env fn) (shape_id sh) = Some m0
                   else \<exists>rest. import_obj_load env (resolve_scene_relative_path env fn) = m0 # rest)
               \<and> windings m = windings m0))"
proof (cases "plugin_name sh = ''ply''")
  case True
  have a: "mi_shape_to_bl_shape env (sh\<lparr>props := (props sh)(''flip_normals'' := v)\<rparr>)
           = mi_shape_to_bl_shape env sh"
    using True by (simp add: dispatch_ply ply_ignores_flip)
  have b: "\<exists>fn m0. props sh ''filename'' = Some fn
             \<and> load_ply_mesh env (resolve_scene_relative_path env fn) (shape_id sh) = Some m0
             \<and> windings m = windings m0"
    if "returned_mesh (mi_shape_to_bl_shape env sh) = Some m" for m
  proof -
    from that True have "returned_mesh (mi_ply_to_bl_shape env sh) = Some m"
      by (simp add: dispatch_ply returned_mesh_unpack)
    from ply_returned [OF this] show ?thesis
      by (auto simp: windings_shading)
  qed
  from a b True show ?thesis by simp
next
  case False
  then have obj: "plugin_name sh = ''obj''" using assms by simp
  have a: "mi_shape_to_bl_shape env (sh\<lparr>props := (props sh)(''flip_normals'' := v)\<rparr>)
           = mi_shape_to_bl_shape env sh"
    using obj by (simp add: dispatch_obj obj_ignores_flip)
  have b: "\<exists>fn m0. props sh ''filename'' = Some fn
             \<and> (\<exists>rest. import_obj_load env (resolve_scene_relative_path env fn) = m0 # rest)
             \<and> windings m = windings m0"
    if "returned_mesh (mi_shape_to_bl_shape env sh) = Some m" for m
  proof -
    from that obj have "returned_mesh (mi_obj_to_bl_shape env sh) = Some m"
      by (simp add: dispatch_obj returned_mesh_unpack)
    from obj_returned [OF this] show ?thesis
      by (auto simp: windings_shading windings_rename)
  qed
  from a b False show ?thesis by simp
qed

theorem file_loaders_never_flip_witness:
  "mi_shape_to_bl_shape scene_env
     ((file_shape ''ply'' ''a'' ''tri.ply'')
        \<lparr>props := (props (file_shape ''ply'' ''a'' ''tri.ply''))(''flip_normals'' \<mapsto> PBool True)\<rparr>)
     = mi_shape_to_bl_shape scene_env (file_shape ''ply'' ''a'' ''tri.ply'')
   \<and> map_option windings
        (returned_mesh (mi_shape_to_bl_shape scene_env (file_shape ''ply'' ''a'' ''tri.ply'')))
     = Some [[0, 1, 2]]"
proof -
  let ?sh = "file_shape ''ply'' ''a'' ''tri.ply''"
  have k: "plugin_name ?sh = ''ply'' \<or> plugin_name ?sh = ''obj''"
    by (simp add: file_shape_def)
  note t = file_loaders_never_flip [OF k, of scene_env "Some (PBool True)"]
  obtain m where m: "returned_mesh (mi_shape_to_bl_shape scene_env ?sh) = Some m"
    by (simp add: dispatch_ply file_shape_def scene_env_def mi_ply_to_bl_shape_def unpack_simps
        returned_mesh_def Let_def)
  with t obtain fn m0 where f: "props ?sh ''filename'' = Some fn"
    and l: "load_ply_mesh scene_env (resolve_scene_relative_path scene_env fn) (shape_id ?sh) = Some m0"
    and w: "windings m = windings m0"
    by (auto simp: file_shape_def)
  from f have "fn = PStr ''tri.ply''" by (simp add: file_shape_def)
  with l have "m0 = tri_mesh\<lparr>name := ''a''\<rparr>"
    by (simp add: scene_env_def file_shape_def)
  with w have "windings m = [[0, 1, 2]]"
    by (simp add: windings_def tri_mesh_def)
  with m t show ?thesis by simp
qed

end
